theory Spec2Isabelle
  imports Main "HOL-Library.Sublist"
begin

section \<open>JavaScript values and errors\<close>

text \<open>
  The values the client reads out of a parsed response body and hands back to its caller
  are untyped on the JavaScript side (\<open>any\<close>). They are modelled by one datatype:
  the JSON values plus \<open>undefined\<close>, which JSON parsing never yields but which a lookup
  of a missing property does. An object is the list of its own properties; numbers are
  kept as integers, since the client only ever tests a number for being zero.
\<close>

datatype js_value =
    JUndefined
  | JNull
  | JBool bool
  | JNum int
  | JStr string
  | JArr "js_value list"
  | JObj "(string \<times> js_value) list"

text \<open>
  A thrown value: the class of the error object and its \<open>message\<close>. \<open>new Error(msg)\<close>
  in the source is \<open>JsError Error msg\<close>; the network primitive rejects with whatever
  error the platform makes (a \<open>TypeError\<close> in browsers). An error without a message
  has the empty one.
\<close>

datatype error_class = Error | TypeError | SyntaxError

datatype js_error = JsError error_class string

fun error_kind :: "js_error \<Rightarrow> error_class" where
  "error_kind (JsError k m) = k"

fun message :: "js_error \<Rightarrow> string" where
  "message (JsError k m) = m"

text \<open>Truthiness, as the operator \<open>||\<close> tests it.\<close>

fun truthy :: "js_value \<Rightarrow> bool" where
  "truthy JUndefined = False"
| "truthy JNull = False"
| "truthy (JBool b) = b"
| "truthy (JNum n) = (n \<noteq> 0)"
| "truthy (JStr s) = (s \<noteq> [])"
| "truthy (JArr xs) = True"
| "truthy (JObj kvs) = True"

definition js_or :: "js_value \<Rightarrow> js_value \<Rightarrow> js_value" where
  "js_or a b = (if truthy a then a else b)"

text \<open>
  The property read \<open>data.key\<close>, for the keys the client reads (\<open>workspaces\<close>,
  \<open>workspace\<close>, \<open>users\<close>, \<open>sources\<close>, \<open>textResponse\<close>; none of them is a built-in
  property of arrays, strings, numbers or booleans). Reading a property of \<open>null\<close> or
  \<open>undefined\<close> throws a \<open>TypeError\<close>; a missing property reads as \<open>undefined\<close>.
\<close>

fun get_prop :: "js_value \<Rightarrow> string \<Rightarrow> js_error + js_value" where
  "get_prop JUndefined key =
     Inl (JsError TypeError (''Cannot read properties of undefined (reading ''
                             @ [CHR 0x27] @ key @ [CHR 0x27] @ '')''))"
| "get_prop JNull key =
     Inl (JsError TypeError (''Cannot read properties of null (reading ''
                             @ [CHR 0x27] @ key @ [CHR 0x27] @ '')''))"
| "get_prop (JObj kvs) key =
     Inr (case map_of kvs key of None \<Rightarrow> JUndefined | Some v \<Rightarrow> v)"
| "get_prop v key = Inr JUndefined"

text \<open>A number in a template literal: its decimal digits.\<close>

fun string_of_nat :: "nat \<Rightarrow> string" where
  "string_of_nat n =
     (if n < 10 then [''0123456789'' ! n]
      else string_of_nat (n div 10) @ [''0123456789'' ! (n mod 10)])"

declare string_of_nat.simps [simp del]

section \<open>The network primitive\<close>

datatype http_method = GET | POST | DELETE

text \<open>
  What the client passes to \<open>fetch\<close>: the URL and the \<open>method\<close>, \<open>headers\<close> and
  \<open>body\<close> of the init object. The body is the value given to \<open>JSON.stringify\<close>;
  its serialisation to text is the platform's.
\<close>

record http_request =
  req_url :: string
  req_method :: http_method
  req_headers :: "(string \<times> string) list"
  req_body :: "js_value option"

text \<open>
  What the client reads of a response: \<open>status\<close>, \<open>statusText\<close>, and the outcomes of
  the two body readers \<open>text()\<close> and \<open>json()\<close>, each of which may reject (\<open>json()\<close>
  with a \<open>SyntaxError\<close> when the body is not JSON).
\<close>

record http_response =
  status :: nat
  statusText :: string
  body_text :: "js_error + string"
  body_json :: "js_error + js_value"

definition ok :: "http_response \<Rightarrow> bool" where
  "ok response = (200 \<le> status response \<and> status response \<le> 299)"

text \<open>
  \<open>fetch\<close> either rejects (a transport failure) or resolves with a response. Two
  environments are named: the one in which every request is rejected with a given error,
  and the one in which every request is answered with a given response.
\<close>

type_synonym fetch = "http_request \<Rightarrow> js_error + http_response"

definition rejects :: "js_error \<Rightarrow> fetch" where
  "rejects e request = Inl e"

definition responds :: "http_response \<Rightarrow> fetch" where
  "responds response request = Inr response"

section \<open>AnythingLLMClient\<close>

record client =
  baseUrl :: string
  apiKey :: string

text \<open>\<open>host.replace(/\/$/, '')\<close>: one slash at the very end of the string is dropped.\<close>

definition strip_trailing_slash :: "string \<Rightarrow> string" where
  "strip_trailing_slash host =
     (if host \<noteq> [] \<and> last host = CHR ''/'' then butlast host else host)"

text \<open>
  \<open>String.prototype.trim\<close>: white space and line terminators are removed at both ends.
  A \<open>char\<close> is read as a code point below 256, where these are the code points 9 to 13,
  32 and 160.
\<close>

definition is_white_space :: "char \<Rightarrow> bool" where
  "is_white_space c =
     (let n = (of_char c :: nat) in (9 \<le> n \<and> n \<le> 13) \<or> n = 32 \<or> n = 160)"

definition trim :: "string \<Rightarrow> string" where
  "trim s = rev (dropWhile is_white_space (rev (dropWhile is_white_space s)))"

definition new_client :: "string \<Rightarrow> string \<Rightarrow> string \<Rightarrow> client" where
  "new_client host port key =
     (let cleanHost = strip_trailing_slash host
      in \<lparr>baseUrl = cleanHost @ '':'' @ port @ ''/api/v1'', apiKey = trim key\<rparr>)"

definition headers :: "client \<Rightarrow> (string \<times> string) list" where
  "headers c =
     [(''Authorization'', ''Bearer '' @ apiKey c),
      (''Content-Type'', ''application/json''),
      (''Accept'', ''application/json'')]"

subsection \<open>validateConnection\<close>

record auth_result =
  authenticated :: bool
  error :: "string option"

definition validateConnection_request :: "client \<Rightarrow> http_request" where
  "validateConnection_request c =
     \<lparr>req_url = baseUrl c @ ''/auth'', req_method = GET, req_headers = headers c,
      req_body = None\<rparr>"

text \<open>The body of the \<open>try\<close> block, then the \<open>catch\<close> clause around it.\<close>

definition validateConnection_try :: "client \<Rightarrow> fetch \<Rightarrow> js_error + auth_result" where
  "validateConnection_try c fetch =
     (case fetch (validateConnection_request c) of
        Inl e \<Rightarrow> Inl e
      | Inr response \<Rightarrow>
          if status response = 200 then Inr \<lparr>authenticated = True, error = None\<rparr>
          else if status response = 401 \<or> status response = 403
            then Inr \<lparr>authenticated = False, error = Some ''Invalid API Key''\<rparr>
          else Inr \<lparr>authenticated = False,
                    error = Some (''Server returned '' @ string_of_nat (status response)
                                  @ '' '' @ statusText response)\<rparr>)"

definition validateConnection :: "client \<Rightarrow> fetch \<Rightarrow> js_error + auth_result" where
  "validateConnection c fetch =
     (case validateConnection_try c fetch of
        Inl e \<Rightarrow>
          Inr \<lparr>authenticated = False,
               error = Some (if message e \<noteq> [] then message e else ''Network Error'')\<rparr>
      | Inr r \<Rightarrow> Inr r)"

subsection \<open>Workspace management\<close>

definition getWorkspaces_request :: "client \<Rightarrow> http_request" where
  "getWorkspaces_request c =
     \<lparr>req_url = baseUrl c @ ''/workspaces'', req_method = GET, req_headers = headers c,
      req_body = None\<rparr>"

definition getWorkspaces :: "client \<Rightarrow> fetch \<Rightarrow> js_error + js_value" where
  "getWorkspaces c fetch =
     (case fetch (getWorkspaces_request c) of
        Inl e \<Rightarrow> Inl e
      | Inr response \<Rightarrow>
          if \<not> ok response then Inl (JsError Error (statusText response))
          else (case body_json response of
                  Inl e \<Rightarrow> Inl e
                | Inr data \<Rightarrow>
                    (case get_prop data ''workspaces'' of
                       Inl e \<Rightarrow> Inl e
                     | Inr v \<Rightarrow> Inr (js_or v (JArr [])))))"

definition getWorkspace_request :: "client \<Rightarrow> string \<Rightarrow> http_request" where
  "getWorkspace_request c slug =
     \<lparr>req_url = baseUrl c @ ''/workspace/'' @ slug, req_method = GET,
      req_headers = headers c, req_body = None\<rparr>"

definition getWorkspace :: "client \<Rightarrow> fetch \<Rightarrow> string \<Rightarrow> js_error + js_value" where
  "getWorkspace c fetch slug =
     (case fetch (getWorkspace_request c slug) of
        Inl e \<Rightarrow> Inl e
      | Inr response \<Rightarrow>
          if \<not> ok response
            then Inl (JsError Error (''Workspace '' @ [CHR 0x27] @ slug @ [CHR 0x27]
                                     @ '' not found or error.''))
          else (case body_json response of
                  Inl e \<Rightarrow> Inl e
                | Inr data \<Rightarrow> get_prop data ''workspace''))"

definition createWorkspace_request :: "client \<Rightarrow> string \<Rightarrow> http_request" where
  "createWorkspace_request c name =
     \<lparr>req_url = baseUrl c @ ''/workspace/new'', req_method = POST,
      req_headers = headers c, req_body = Some (JObj [(''name'', JStr name)])\<rparr>"

definition createWorkspace :: "client \<Rightarrow> fetch \<Rightarrow> string \<Rightarrow> js_error + js_value" where
  "createWorkspace c fetch name =
     (case fetch (createWorkspace_request c name) of
        Inl e \<Rightarrow> Inl e
      | Inr response \<Rightarrow>
          if \<not> ok response
            then (case body_text response of
                    Inl e \<Rightarrow> Inl e
                  | Inr t \<Rightarrow> Inl (JsError Error (''Failed to create workspace: '' @ t)))
          else (case body_json response of
                  Inl e \<Rightarrow> Inl e
                | Inr data \<Rightarrow> get_prop data ''workspace''))"

record delete_result =
  success :: bool
  result_message :: "string option"

definition deleteWorkspace_request :: "client \<Rightarrow> string \<Rightarrow> http_request" where
  "deleteWorkspace_request c slug =
     \<lparr>req_url = baseUrl c @ ''/workspace/'' @ slug, req_method = DELETE,
      req_headers = headers c, req_body = None\<rparr>"

definition deleteWorkspace :: "client \<Rightarrow> fetch \<Rightarrow> string \<Rightarrow> js_error + delete_result" where
  "deleteWorkspace c fetch slug =
     (case fetch (deleteWorkspace_request c slug) of
        Inl e \<Rightarrow> Inl e
      | Inr response \<Rightarrow>
          if \<not> ok response
            then (case body_text response of
                    Inl e \<Rightarrow> Inl e
                  | Inr t \<Rightarrow> Inl (JsError Error (''Failed to delete workspace: '' @ t)))
          else Inr \<lparr>success = True, result_message = None\<rparr>)"

record embeddings_result =
  embeddings_success :: bool
  embeddings_response :: js_value

definition updateEmbeddings_request :: "client \<Rightarrow> string \<Rightarrow> http_request" where
  "updateEmbeddings_request c slug =
     \<lparr>req_url = baseUrl c @ ''/workspace/'' @ slug @ ''/update-embeddings'',
      req_method = POST, req_headers = headers c, req_body = None\<rparr>"

definition updateEmbeddings :: "client \<Rightarrow> fetch \<Rightarrow> string \<Rightarrow> js_error + embeddings_result" where
  "updateEmbeddings c fetch slug =
     (case fetch (updateEmbeddings_request c slug) of
        Inl e \<Rightarrow> Inl e
      | Inr response \<Rightarrow>
          if \<not> ok response
            then (case body_text response of
                    Inl e \<Rightarrow> Inl e
                  | Inr t \<Rightarrow> Inl (JsError Error (''Failed to update embeddings: '' @ t)))
          else (case body_json response of
                  Inl e \<Rightarrow> Inl e
                | Inr data \<Rightarrow> Inr \<lparr>embeddings_success = True, embeddings_response = data\<rparr>))"

subsection \<open>Chat\<close>

record chat_result =
  textResponse :: js_value
  sources :: js_value

text \<open>
  The third argument is optional: \<open>None\<close> is the call without it (or with
  \<open>undefined\<close>), for which the default initialiser \<open>'chat'\<close> applies.
\<close>

definition sendChat_request :: "client \<Rightarrow> string \<Rightarrow> string \<Rightarrow> string option \<Rightarrow> http_request" where
  "sendChat_request c slug msg mode_arg =
     (let mode = (case mode_arg of None \<Rightarrow> ''chat'' | Some m \<Rightarrow> m)
      in \<lparr>req_url = baseUrl c @ ''/workspace/'' @ slug @ ''/chat'', req_method = POST,
          req_headers = headers c,
          req_body = Some (JObj [(''message'', JStr msg), (''mode'', JStr mode)])\<rparr>)"

definition sendChat ::
  "client \<Rightarrow> fetch \<Rightarrow> string \<Rightarrow> string \<Rightarrow> string option \<Rightarrow> js_error + chat_result" where
  "sendChat c fetch slug msg mode_arg =
     (case fetch (sendChat_request c slug msg mode_arg) of
        Inl e \<Rightarrow> Inl e
      | Inr response \<Rightarrow>
          if \<not> ok response
            then (case body_text response of
                    Inl e \<Rightarrow> Inl e
                  | Inr t \<Rightarrow>
                      Inl (JsError Error (''Chat failed ('' @ string_of_nat (status response)
                                          @ ''): '' @ t)))
          else (case body_json response of
                  Inl e \<Rightarrow> Inl e
                | Inr data \<Rightarrow>
                    (case get_prop data ''textResponse'' of
                       Inl e \<Rightarrow> Inl e
                     | Inr t \<Rightarrow>
                         (case get_prop data ''sources'' of
                            Inl e \<Rightarrow> Inl e
                          | Inr s \<Rightarrow>
                              Inr \<lparr>textResponse = t, sources = js_or s (JArr [])\<rparr>))))"

subsection \<open>System administration\<close>

definition getUsers_request :: "client \<Rightarrow> http_request" where
  "getUsers_request c =
     \<lparr>req_url = baseUrl c @ ''/system/users'', req_method = GET, req_headers = headers c,
      req_body = None\<rparr>"

definition getUsers :: "client \<Rightarrow> fetch \<Rightarrow> js_error + js_value" where
  "getUsers c fetch =
     (case fetch (getUsers_request c) of
        Inl e \<Rightarrow> Inl e
      | Inr response \<Rightarrow>
          if \<not> ok response
            then Inl (JsError Error
                       (''Failed to fetch users (May require Admin privilege): ''
                        @ statusText response))
          else (case body_json response of
                  Inl e \<Rightarrow> Inl e
                | Inr data \<Rightarrow>
                    (case get_prop data ''users'' of
                       Inl e \<Rightarrow> Inl e
                     | Inr v \<Rightarrow> Inr (js_or v (JArr [])))))"

section \<open>The method registry\<close>

datatype SDKParamType = T_string | T_number | T_boolean | T_slug | T_json

record SDKMethodParam =
  name :: string
  type :: SDKParamType
  required :: bool
  param_description :: "string option"
  defaultValue :: "js_value option"

record SDKMethodDefinition =
  method_name :: string
  label :: string
  description :: string
  params :: "SDKMethodParam list"

definition SDK_METHODS :: "SDKMethodDefinition list" where
  "SDK_METHODS =
   [\<lparr>method_name = ''getWorkspaces'', label = ''Get All Workspaces'',
     description = ''List all available workspaces in this instance.'',
     params = []\<rparr>,
    \<lparr>method_name = ''getWorkspace'', label = ''Get Workspace Details'',
     description = ''Get metadata about a specific workspace.'',
     params =
       [\<lparr>name = ''slug'', type = T_slug, required = True,
         param_description = Some ''Workspace Slug (e.g. my-chat)'',
         defaultValue = None\<rparr>]\<rparr>,
    \<lparr>method_name = ''createWorkspace'', label = ''Create Workspace'',
     description = ''Create a new empty workspace.'',
     params =
       [\<lparr>name = ''name'', type = T_string, required = True,
         param_description = Some ''New Workspace Name'', defaultValue = None\<rparr>]\<rparr>,
    \<lparr>method_name = ''deleteWorkspace'', label = ''Delete Workspace'',
     description = ''Permanently delete a workspace.'',
     params =
       [\<lparr>name = ''slug'', type = T_slug, required = True,
         param_description = Some ''Slug to delete'', defaultValue = None\<rparr>]\<rparr>,
    \<lparr>method_name = ''updateEmbeddings'', label = ''Update Embeddings'',
     description = ''Force a re-sync of the vector database for this workspace.'',
     params =
       [\<lparr>name = ''slug'', type = T_slug, required = True,
         param_description = Some ''Target Workspace'', defaultValue = None\<rparr>]\<rparr>,
    \<lparr>method_name = ''sendChat'', label = ''Send Chat Message'',
     description = ''Send a prompt to a workspace.'',
     params =
       [\<lparr>name = ''slug'', type = T_slug, required = True,
         param_description = Some ''Target Workspace'', defaultValue = None\<rparr>,
        \<lparr>name = ''message'', type = T_string, required = True,
         param_description = Some ''Your prompt'', defaultValue = None\<rparr>,
        \<lparr>name = ''mode'', type = T_string, required = True,
         param_description = Some (CHR 0x22 # ''chat'' @ CHR 0x22 # '' or '' @ CHR 0x22 # ''query'' @ [CHR 0x22]),
         defaultValue = Some (JStr ''chat'')\<rparr>]\<rparr>,
    \<lparr>method_name = ''getUsers'', label = ''Get Users (Admin)'',
     description = ''List all registered users.'',
     params = []\<rparr>]"

text \<open>
  The members of an \<open>AnythingLLMClient\<close> object as a lookup by name sees them: the two
  fields, the \<open>headers\<close> accessor (an object, not a function), and the methods, each with
  its formal parameters in the order of its declaration. The functions every object
  inherits (\<open>toString\<close>, \<open>constructor\<close> and the like) are not listed: a lookup of
  such a name finds a function in the code and none here.
\<close>

datatype client_member = Field | Accessor | Method "string list"

definition client_members :: "(string \<times> client_member) list" where
  "client_members =
   [(''baseUrl'', Field),
    (''apiKey'', Field),
    (''headers'', Accessor),
    (''validateConnection'', Method []),
    (''getWorkspaces'', Method []),
    (''getWorkspace'', Method [''slug'']),
    (''createWorkspace'', Method [''name'']),
    (''deleteWorkspace'', Method [''slug'']),
    (''updateEmbeddings'', Method [''slug'']),
    (''sendChat'', Method [''slug'', ''message'', ''mode'']),
    (''getUsers'', Method [])]"

text \<open>
  The lookup \<open>client[definition.method]\<close> of the playground, with its test
  \<open>typeof fn !== 'function'\<close>: the formal parameters of the method found, or the error
  thrown when the name is not that of a method.
\<close>

definition resolve_method :: "string \<Rightarrow> js_error + string list" where
  "resolve_method m =
     (case map_of client_members m of
        Some (Method formals) \<Rightarrow> Inr formals
      | _ \<Rightarrow> Inl (JsError Error ''Method not implemented in SDK''))"

text \<open>
  The positional arguments of the call: \<open>definition.params.map(p => methodArgs[p.name])\<close>,
  a missing entry reading as \<open>undefined\<close>.
\<close>

definition positional_args :: "SDKMethodDefinition \<Rightarrow> (string \<rightharpoonup> js_value) \<Rightarrow> js_value list" where
  "positional_args definition methodArgs =
     map (\<lambda>p. case methodArgs (name p) of None \<Rightarrow> JUndefined | Some v \<Rightarrow> v)
         (params definition)"

section \<open>Pre-filling the arguments of the selected method\<close>

text \<open>
  The effect that runs when the selected method or the configured model (the slug of the
  current workspace) changes. One step of its \<open>forEach\<close>, then the whole loop from the
  empty record, then the effect itself, which reads \<open>SDK_METHODS[selectedMethodIdx]\<close>
  first: beyond the end of the registry that is \<open>undefined\<close>, whose \<open>params\<close> cannot be
  read.
\<close>

definition prefill_param ::
  "string \<Rightarrow> (string \<rightharpoonup> js_value) \<Rightarrow> SDKMethodParam \<Rightarrow> (string \<rightharpoonup> js_value)" where
  "prefill_param model initialArgs param =
     (if type param = T_slug \<and> model \<noteq> [] then initialArgs(name param \<mapsto> JStr model)
      else (case defaultValue param of
              Some v \<Rightarrow> initialArgs(name param \<mapsto> v)
            | None \<Rightarrow> initialArgs(name param \<mapsto> JStr [])))"

definition prefill :: "SDKMethodDefinition \<Rightarrow> string \<Rightarrow> (string \<rightharpoonup> js_value)" where
  "prefill definition model = foldl (prefill_param model) Map.empty (params definition)"

definition prefill_effect :: "nat \<Rightarrow> string \<Rightarrow> js_error + (string \<rightharpoonup> js_value)" where
  "prefill_effect selectedMethodIdx model =
     (if selectedMethodIdx < length SDK_METHODS
      then Inr (prefill (SDK_METHODS ! selectedMethodIdx) model)
      else Inl (JsError TypeError
                 (''Cannot read properties of undefined (reading ''
                  @ [CHR 0x27] @ ''params'' @ [CHR 0x27] @ '')'')))"

section \<open>Connection validation\<close>

text \<open>
  C1, as stated: \<open>validateConnection\<close> never throws, and every 2xx response yields
  \<open>authenticated = true\<close>. The second half fails: the test in the code is
  \<open>response.status === 200\<close>, so a 204 response is reported as not authenticated,
  with the error text of the fall-through branch.
\<close>

theorem validateConnection_204_counterexample:
  "validateConnection (new_client ''http://localhost'' ''3001'' ''key'')
     (responds \<lparr>status = 204, statusText = ''No Content'', body_text = Inr [],
                body_json = Inl (JsError SyntaxError ''Unexpected end of JSON input'')\<rparr>)
   = Inr \<lparr>authenticated = False, error = Some ''Server returned 204 No Content''\<rparr>"
  by (simp add: validateConnection_def validateConnection_try_def responds_def
      string_of_nat.simps)

text \<open>
  C1, amended: \<open>validateConnection\<close> never throws. Whatever the request does, it
  returns a record; \<open>authenticated\<close> is true exactly when a response with status 200
  arrived; in every other case there is a non-empty \<open>error\<close> text, which is the
  message of the transport failure (\<open>Network Error\<close> when it has none),
  \<open>Invalid API Key\<close> for 401 and 403, and \<open>Server returned\<close> followed by the
  status code and status text for any other status, 2xx other than 200 included.
\<close>

theorem validateConnection_never_throws:
  "\<exists>r. validateConnection c fetch = Inr r
     \<and> (authenticated r \<longleftrightarrow>
          (\<exists>resp. fetch (validateConnection_request c) = Inr resp \<and> status resp = 200))
     \<and> (\<not> authenticated r \<longrightarrow> (\<exists>s. error r = Some s \<and> s \<noteq> []))
     \<and> (\<forall>e. fetch (validateConnection_request c) = Inl e \<longrightarrow>
            error r = Some (if message e \<noteq> [] then message e else ''Network Error''))
     \<and> (\<forall>resp. fetch (validateConnection_request c) = Inr resp
            \<and> (status resp = 401 \<or> status resp = 403) \<longrightarrow>
            error r = Some ''Invalid API Key'')
     \<and> (\<forall>resp. fetch (validateConnection_request c) = Inr resp
            \<and> status resp \<noteq> 200 \<and> status resp \<noteq> 401 \<and> status resp \<noteq> 403 \<longrightarrow>
            error r = Some (''Server returned '' @ string_of_nat (status resp) @ '' ''
                            @ statusText resp))"
proof (cases "fetch (validateConnection_request c)")
  case (Inl e)
  then show ?thesis
    by (simp add: validateConnection_def validateConnection_try_def)
next
  case (Inr resp)
  then show ?thesis
    by (simp add: validateConnection_def validateConnection_try_def)
qed

theorem validateConnection_never_throws_witness:
  "responds \<lparr>status = 403, statusText = ''Forbidden'', body_text = Inr [],
             body_json = Inr JNull\<rparr>
     (validateConnection_request (new_client ''http://localhost'' ''3001'' ''key''))
   = Inr \<lparr>status = 403, statusText = ''Forbidden'', body_text = Inr [],
          body_json = Inr JNull\<rparr>
   \<and> (\<exists>r. validateConnection (new_client ''http://localhost'' ''3001'' ''key'')
             (responds \<lparr>status = 403, statusText = ''Forbidden'', body_text = Inr [],
                        body_json = Inr JNull\<rparr>) = Inr r
          \<and> \<not> authenticated r \<and> error r = Some ''Invalid API Key'')"
  using validateConnection_never_throws
    [of "new_client ''http://localhost'' ''3001'' ''key''"
        "responds \<lparr>status = 403, statusText = ''Forbidden'', body_text = Inr [],
                   body_json = Inr JNull\<rparr>"]
  by (auto simp: responds_def)

section \<open>Transport failures\<close>

text \<open>
  C2, as stated: every operation catches a transport failure and surfaces it as an error
  of a kind of its own, with guidance on network and CORS problems. The operations other
  than \<open>validateConnection\<close> have no handler: when the request is rejected with the
  browser's \<open>TypeError\<close> \<open>Failed to fetch\<close>, that very value is what the operation
  rejects with. \<open>validateConnection\<close> does catch it, and reports the bare message in
  the same record, and the same field, that it uses for an HTTP failure.
\<close>

theorem transport_failure_raw_counterexample:
  "getWorkspaces (new_client ''http://localhost'' ''3001'' ''key'')
     (rejects (JsError TypeError ''Failed to fetch''))
   = Inl (JsError TypeError ''Failed to fetch'')
   \<and> sendChat (new_client ''http://localhost'' ''3001'' ''key'')
       (rejects (JsError TypeError ''Failed to fetch'')) ''docs'' ''hi'' None
     = Inl (JsError TypeError ''Failed to fetch'')
   \<and> validateConnection (new_client ''http://localhost'' ''3001'' ''key'')
       (rejects (JsError TypeError ''Failed to fetch''))
     = Inr \<lparr>authenticated = False, error = Some ''Failed to fetch''\<rparr>"
  by (simp add: getWorkspaces_def sendChat_def validateConnection_def
      validateConnection_try_def rejects_def)

text \<open>
  C2, amended: a transport failure is not caught by any operation but
  \<open>validateConnection\<close>: the operation rejects with the error the request was rejected
  with, unchanged. \<open>validateConnection\<close> turns it into \<open>authenticated = false\<close> with
  the failure's message (\<open>Network Error\<close> when it has none). An error that the client
  raises itself for a non-2xx response is always a plain \<open>Error\<close>, so the two differ
  only as far as the platform's rejection is not a plain \<open>Error\<close>.
\<close>

theorem transport_failure_propagates:
  "(fetch (getWorkspaces_request c) = Inl e \<longrightarrow> getWorkspaces c fetch = Inl e)
   \<and> (fetch (getWorkspace_request c slug) = Inl e \<longrightarrow> getWorkspace c fetch slug = Inl e)
   \<and> (fetch (createWorkspace_request c nm) = Inl e \<longrightarrow> createWorkspace c fetch nm = Inl e)
   \<and> (fetch (deleteWorkspace_request c slug) = Inl e \<longrightarrow> deleteWorkspace c fetch slug = Inl e)
   \<and> (fetch (updateEmbeddings_request c slug) = Inl e \<longrightarrow>
        updateEmbeddings c fetch slug = Inl e)
   \<and> (fetch (sendChat_request c slug msg mode) = Inl e \<longrightarrow>
        sendChat c fetch slug msg mode = Inl e)
   \<and> (fetch (getUsers_request c) = Inl e \<longrightarrow> getUsers c fetch = Inl e)
   \<and> (fetch (validateConnection_request c) = Inl e \<longrightarrow>
        validateConnection c fetch =
          Inr \<lparr>authenticated = False,
               error = Some (if message e \<noteq> [] then message e else ''Network Error'')\<rparr>)
   \<and> (fetch (getWorkspaces_request c) = Inr resp \<and> \<not> ok resp \<longrightarrow>
        (\<exists>m. getWorkspaces c fetch = Inl (JsError Error m)))
   \<and> (fetch (getWorkspace_request c slug) = Inr resp \<and> \<not> ok resp \<longrightarrow>
        (\<exists>m. getWorkspace c fetch slug = Inl (JsError Error m)))
   \<and> (fetch (createWorkspace_request c nm) = Inr resp \<and> \<not> ok resp
        \<and> body_text resp = Inr t \<longrightarrow>
        (\<exists>m. createWorkspace c fetch nm = Inl (JsError Error m)))
   \<and> (fetch (deleteWorkspace_request c slug) = Inr resp \<and> \<not> ok resp
        \<and> body_text resp = Inr t \<longrightarrow>
        (\<exists>m. deleteWorkspace c fetch slug = Inl (JsError Error m)))
   \<and> (fetch (updateEmbeddings_request c slug) = Inr resp \<and> \<not> ok resp
        \<and> body_text resp = Inr t \<longrightarrow>
        (\<exists>m. updateEmbeddings c fetch slug = Inl (JsError Error m)))
   \<and> (fetch (sendChat_request c slug msg mode) = Inr resp \<and> \<not> ok resp
        \<and> body_text resp = Inr t \<longrightarrow>
        (\<exists>m. sendChat c fetch slug msg mode = Inl (JsError Error m)))
   \<and> (fetch (getUsers_request c) = Inr resp \<and> \<not> ok resp \<longrightarrow>
        (\<exists>m. getUsers c fetch = Inl (JsError Error m)))"
  by (simp add: getWorkspaces_def getWorkspace_def createWorkspace_def deleteWorkspace_def
      updateEmbeddings_def sendChat_def getUsers_def validateConnection_def
      validateConnection_try_def)

theorem transport_failure_propagates_witness:
  "rejects (JsError TypeError ''Failed to fetch'')
     (getUsers_request (new_client ''http://localhost'' ''3001'' ''key''))
   = Inl (JsError TypeError ''Failed to fetch'')
   \<and> getUsers (new_client ''http://localhost'' ''3001'' ''key'')
       (rejects (JsError TypeError ''Failed to fetch''))
     = Inl (JsError TypeError ''Failed to fetch'')
   \<and> rejects (JsError TypeError ''Failed to fetch'')
       (deleteWorkspace_request (new_client ''http://localhost'' ''3001'' ''key'') ''docs'')
     = Inl (JsError TypeError ''Failed to fetch'')
   \<and> deleteWorkspace (new_client ''http://localhost'' ''3001'' ''key'')
       (rejects (JsError TypeError ''Failed to fetch'')) ''docs''
     = Inl (JsError TypeError ''Failed to fetch'')"
  using transport_failure_propagates
    [of "rejects (JsError TypeError ''Failed to fetch'')"
        "new_client ''http://localhost'' ''3001'' ''key''"
        "JsError TypeError ''Failed to fetch''" "''docs''"]
  by (simp add: rejects_def)

section \<open>The registry names methods of the client\<close>

text \<open>
  C3: every descriptor of \<open>SDK_METHODS\<close> names a method of the client, and the names
  of its declared parameters, in their order, are the formal parameters of that method,
  in the order of its declaration; so the positional arguments the playground builds are
  the values entered for the method's formal parameters, one for one.
\<close>

theorem registry_resolves:
  "\<forall>d \<in> set SDK_METHODS.
     \<exists>formals. resolve_method (method_name d) = Inr formals
       \<and> formals = map name (params d)
       \<and> positional_args d methodArgs =
           map (\<lambda>f. case methodArgs f of None \<Rightarrow> JUndefined | Some v \<Rightarrow> v) formals"
  by (simp add: SDK_METHODS_def resolve_method_def client_members_def positional_args_def)

theorem registry_resolves_witness:
  "SDK_METHODS ! 5 \<in> set SDK_METHODS
   \<and> method_name (SDK_METHODS ! 5) = ''sendChat''
   \<and> resolve_method (method_name (SDK_METHODS ! 5)) = Inr [''slug'', ''message'', ''mode'']"
proof -
  have mem: "SDK_METHODS ! 5 \<in> set SDK_METHODS"
    by (simp add: SDK_METHODS_def)
  have "resolve_method (method_name (SDK_METHODS ! 5))
        = Inr (map name (params (SDK_METHODS ! 5)))"
    using registry_resolves [of Map.empty] mem by blast
  moreover have "map name (params (SDK_METHODS ! 5)) = [''slug'', ''message'', ''mode'']"
    by (simp add: SDK_METHODS_def)
  moreover have "method_name (SDK_METHODS ! 5) = ''sendChat''"
    by (simp add: SDK_METHODS_def)
  ultimately show ?thesis using mem by simp
qed

section \<open>Chat requests\<close>



section \<open>Deleting a workspace\<close>



section \<open>Listing workspaces\<close>

text \<open>
  C6: when the response is 2xx and its body holds an array under \<open>workspaces\<close>,
  \<open>getWorkspaces\<close> returns that array, elements and order as the server sent them; for
  a server without workspaces that is the empty array, not an error. On a response
  outside 2xx it fails with the status text of the response as its message.
\<close>

theorem getWorkspaces_sequence_or_status_text:
  "(\<forall>resp kvs ws. fetch (getWorkspaces_request c) = Inr resp \<and> ok resp
        \<and> body_json resp = Inr (JObj kvs) \<and> map_of kvs ''workspaces'' = Some (JArr ws) \<longrightarrow>
        getWorkspaces c fetch = Inr (JArr ws))
   \<and> (\<forall>resp. fetch (getWorkspaces_request c) = Inr resp \<and> \<not> ok resp \<longrightarrow>
        getWorkspaces c fetch = Inl (JsError Error (statusText resp)))"
  by (simp add: getWorkspaces_def js_or_def)

theorem getWorkspaces_sequence_or_status_text_witness:
  "responds \<lparr>status = 200, statusText = ''OK'', body_text = Inr ''{}'',
             body_json = Inr (JObj [(''workspaces'', JArr [])])\<rparr>
     (getWorkspaces_request (new_client ''http://localhost'' ''3001'' ''key''))
   = Inr \<lparr>status = 200, statusText = ''OK'', body_text = Inr ''{}'',
          body_json = Inr (JObj [(''workspaces'', JArr [])])\<rparr>
   \<and> ok \<lparr>status = 200, statusText = ''OK'', body_text = Inr ''{}'',
          body_json = Inr (JObj [(''workspaces'', JArr [])])\<rparr>
   \<and> map_of [(''workspaces'', JArr [])] ''workspaces'' = Some (JArr [])
   \<and> getWorkspaces (new_client ''http://localhost'' ''3001'' ''key'')
       (responds \<lparr>status = 200, statusText = ''OK'', body_text = Inr ''{}'',
                  body_json = Inr (JObj [(''workspaces'', JArr [])])\<rparr>)
     = Inr (JArr [])"
proof -
  let ?c = "new_client ''http://localhost'' ''3001'' ''key''"
  let ?r = "\<lparr>status = 200, statusText = ''OK'', body_text = Inr ''{}'',
             body_json = Inr (JObj [(''workspaces'', JArr [])])\<rparr>"
  have a: "responds ?r (getWorkspaces_request ?c) = Inr ?r"
    by (simp add: responds_def)
  have b: "ok ?r" by (simp add: ok_def)
  have j: "body_json ?r = Inr (JObj [(''workspaces'', JArr [])])" by simp
  have m: "map_of [(''workspaces'', JArr [])] ''workspaces'' = Some (JArr [])" by simp
  from getWorkspaces_sequence_or_status_text [of "responds ?r" ?c]
  have "getWorkspaces ?c (responds ?r) = Inr (JArr [])"
    using a b j m by blast
  then show ?thesis using a b m by simp
qed

section \<open>Base path and headers\<close>

lemma strip_trailing_slash_cases:
  "host = strip_trailing_slash host \<or> host = strip_trailing_slash host @ ''/''"
proof (cases host rule: rev_cases)
  case Nil
  then show ?thesis by (simp add: strip_trailing_slash_def)
next
  case (snoc ys y)
  then show ?thesis by (simp add: strip_trailing_slash_def)
qed

lemma strip_trailing_slash_clean:
  assumes "\<not> suffix ''//'' host"
  shows "\<not> suffix ''/'' (strip_trailing_slash host)"
proof (cases host rule: rev_cases)
  case Nil
  then show ?thesis by (simp add: strip_trailing_slash_def)
next
  case (snoc ys y)
  show ?thesis
  proof (cases "y = CHR ''/''")
    case True
    with snoc assms have "\<not> suffix ''/'' ys"
      by (auto simp: suffix_def)
    with snoc True show ?thesis by (simp add: strip_trailing_slash_def)
  next
    case False
    with snoc show ?thesis by (auto simp: strip_trailing_slash_def suffix_def)
  qed
qed

lemma trim_decomposition:
  "\<exists>pre post. s = pre @ trim s @ post
     \<and> list_all is_white_space pre \<and> list_all is_white_space post"
proof -
  let ?r = "dropWhile is_white_space s"
  let ?pre = "takeWhile is_white_space s"
  let ?post = "rev (takeWhile is_white_space (rev ?r))"
  have "rev ?r = takeWhile is_white_space (rev ?r) @ dropWhile is_white_space (rev ?r)"
    by simp
  then have "?r = trim s @ ?post"
    unfolding trim_def by (metis rev_append rev_rev_ident)
  then have "s = ?pre @ trim s @ ?post"
    by (metis takeWhile_dropWhile_id)
  moreover have "list_all is_white_space ?pre"
    by (simp add: list_all_iff) (meson set_takeWhileD)
  moreover have "list_all is_white_space ?post"
    by (simp add: list_all_iff) (meson set_takeWhileD)
  ultimately show ?thesis by blast
qed

lemma trim_ends:
  "trim s = [] \<or> (\<not> is_white_space (hd (trim s)) \<and> \<not> is_white_space (last (trim s)))"
proof (cases "trim s = []")
  case True
  then show ?thesis by simp
next
  case False
  let ?r = "dropWhile is_white_space s"
  let ?d = "dropWhile is_white_space (rev ?r)"
  have d: "?d \<noteq> []" using False by (simp add: trim_def)
  have r: "?r \<noteq> []"
  proof
    assume "?r = []"
    then have "?d = []" by (simp only: rev.simps dropWhile.simps)
    with d show False by simp
  qed
  have "last (trim s) = hd ?d" unfolding trim_def by (rule last_rev)
  moreover have "\<not> is_white_space (hd ?d)" using d by (rule hd_dropWhile)
  moreover have "hd (trim s) = last ?d" unfolding trim_def by (rule hd_rev)
  moreover have "last ?d = last (rev ?r)"
    by (metis d append_Nil2 last_appendR takeWhile_dropWhile_id)
  moreover have "last (rev ?r) = hd ?r" by (rule last_rev)
  moreover have "\<not> is_white_space (hd ?r)" using r by (rule hd_dropWhile)
  ultimately show ?thesis by simp
qed

text \<open>A token without white space at its ends is stored as it is.\<close>

lemma trim_id:
  assumes "s = [] \<or> (\<not> is_white_space (hd s) \<and> \<not> is_white_space (last s))"
  shows "trim s = s"
proof (cases "s = []")
  case True
  then show ?thesis by (simp add: trim_def)
next
  case False
  with assms have h: "\<not> is_white_space (hd s)" and l: "\<not> is_white_space (last s)" by auto
  from False h have "dropWhile is_white_space s = s"
    by (cases s) auto
  moreover from False l have "dropWhile is_white_space (rev s) = rev s"
    by (cases s rule: rev_cases) auto
  ultimately show ?thesis by (simp add: trim_def)
qed

text \<open>
  C7, as stated: for every host, port and token the requests carry
  \<open>Authorization: Bearer\<close> followed by the token. The constructor stores
  \<open>apiKey.trim()\<close>, so a token written with a space on either side is sent without
  them.
\<close>

theorem bearer_token_trimmed_counterexample:
  "map_of (headers (new_client ''http://localhost'' ''3001'' '' key '')) ''Authorization''
   = Some ''Bearer key''
   \<and> ''Bearer key'' \<noteq> ''Bearer '' @ '' key ''"
  by (simp add: headers_def new_client_def trim_def is_white_space_def)

text \<open>
  C7, amended: for every host, port and token, the client stores the token with the
  white space at its two ends removed; its headers are \<open>Authorization: Bearer\<close> with
  that trimmed token, \<open>Content-Type: application/json\<close> and
  \<open>Accept: application/json\<close>; and the request of every operation has a URL that
  starts with the client's base path and carries exactly these headers. For a host that
  does not end in two slashes, the base path is the host without its trailing slash,
  then \<open>:\<close>, the port and \<open>/api/v1\<close>.
\<close>

theorem client_requests_target_base:
  "\<exists>tok pre post.
       token = pre @ tok @ post
     \<and> list_all is_white_space pre \<and> list_all is_white_space post
     \<and> (tok = [] \<or> (\<not> is_white_space (hd tok) \<and> \<not> is_white_space (last tok)))
     \<and> headers (new_client host port token) =
         [(''Authorization'', ''Bearer '' @ tok),
          (''Content-Type'', ''application/json''),
          (''Accept'', ''application/json'')]
     \<and> list_all (\<lambda>req. prefix (baseUrl (new_client host port token)) (req_url req)
                      \<and> req_headers req = headers (new_client host port token))
         [validateConnection_request (new_client host port token),
          getWorkspaces_request (new_client host port token),
          getWorkspace_request (new_client host port token) slug,
          createWorkspace_request (new_client host port token) nm,
          deleteWorkspace_request (new_client host port token) slug,
          updateEmbeddings_request (new_client host port token) slug,
          sendChat_request (new_client host port token) slug msg mode,
          getUsers_request (new_client host port token)]
     \<and> (\<not> suffix ''//'' host \<longrightarrow>
          (\<exists>h. (host = h \<or> host = h @ ''/'') \<and> \<not> suffix ''/'' h
             \<and> baseUrl (new_client host port token) = h @ '':'' @ port @ ''/api/v1''))"
proof -
  let ?c = "new_client host port token"
  let ?h = "strip_trailing_slash host"
  obtain pre post where tp: "token = pre @ trim token @ post"
      "list_all is_white_space pre" "list_all is_white_space post"
    using trim_decomposition by blast
  have k: "headers ?c = [(''Authorization'', ''Bearer '' @ trim token),
              (''Content-Type'', ''application/json''),
              (''Accept'', ''application/json'')]"
    by (simp add: new_client_def headers_def)
  have r: "list_all (\<lambda>req. prefix (baseUrl ?c) (req_url req) \<and> req_headers req = headers ?c)
             [validateConnection_request ?c, getWorkspaces_request ?c,
              getWorkspace_request ?c slug, createWorkspace_request ?c nm,
              deleteWorkspace_request ?c slug, updateEmbeddings_request ?c slug,
              sendChat_request ?c slug msg mode, getUsers_request ?c]"
    by (simp add: validateConnection_request_def getWorkspaces_request_def
        getWorkspace_request_def createWorkspace_request_def deleteWorkspace_request_def
        updateEmbeddings_request_def sendChat_request_def getUsers_request_def)
  have b: "\<not> suffix ''//'' host \<longrightarrow>
          (\<exists>h. (host = h \<or> host = h @ ''/'') \<and> \<not> suffix ''/'' h
             \<and> baseUrl ?c = h @ '':'' @ port @ ''/api/v1'')"
  proof
    assume a: "\<not> suffix ''//'' host"
    show "\<exists>h. (host = h \<or> host = h @ ''/'') \<and> \<not> suffix ''/'' h
             \<and> baseUrl ?c = h @ '':'' @ port @ ''/api/v1''"
    proof (intro exI conjI)
      show "host = ?h \<or> host = ?h @ ''/''" by (rule strip_trailing_slash_cases)
      show "\<not> suffix ''/'' ?h" using a by (rule strip_trailing_slash_clean)
      show "baseUrl ?c = ?h @ '':'' @ port @ ''/api/v1''" by (simp add: new_client_def)
    qed
  qed
  show ?thesis
  proof (intro exI conjI)
    show "token = pre @ trim token @ post" by (rule tp(1))
    show "list_all is_white_space pre" by (rule tp(2))
    show "list_all is_white_space post" by (rule tp(3))
    show "trim token = []
          \<or> (\<not> is_white_space (hd (trim token)) \<and> \<not> is_white_space (last (trim token)))"
      by (rule trim_ends)
    show "headers ?c = [(''Authorization'', ''Bearer '' @ trim token),
              (''Content-Type'', ''application/json''),
              (''Accept'', ''application/json'')]" by (rule k)
    show "list_all (\<lambda>req. prefix (baseUrl ?c) (req_url req) \<and> req_headers req = headers ?c)
             [validateConnection_request ?c, getWorkspaces_request ?c,
              getWorkspace_request ?c slug, createWorkspace_request ?c nm,
              deleteWorkspace_request ?c slug, updateEmbeddings_request ?c slug,
              sendChat_request ?c slug msg mode, getUsers_request ?c]" by (rule r)
    show "\<not> suffix ''//'' host \<longrightarrow>
          (\<exists>h. (host = h \<or> host = h @ ''/'') \<and> \<not> suffix ''/'' h
             \<and> baseUrl ?c = h @ '':'' @ port @ ''/api/v1'')" by (rule b)
  qed
qed

theorem client_requests_target_base_witness:
  "\<not> suffix ''//'' ''http://localhost/''
   \<and> (\<exists>h. (''http://localhost/'' = h \<or> ''http://localhost/'' = h @ ''/'') \<and> \<not> suffix ''/'' h
          \<and> baseUrl (new_client ''http://localhost/'' ''3001'' '' key '')
              = h @ '':'' @ ''3001'' @ ''/api/v1'')
   \<and> baseUrl (new_client ''http://localhost/'' ''3001'' '' key '') = ''http://localhost:3001/api/v1''
   \<and> req_url (getWorkspaces_request (new_client ''http://localhost/'' ''3001'' '' key ''))
       = ''http://localhost:3001/api/v1/workspaces''"
proof (intro conjI)
  show a: "\<not> suffix ''//'' ''http://localhost/''"
    by (simp add: suffix_def)
  from client_requests_target_base
    [where host = "''http://localhost/''" and port = "''3001''" and token = "'' key ''"
       and slug = "''docs''" and nm = "''Docs''" and msg = "''hi''" and mode = None]
  have "\<not> suffix ''//'' ''http://localhost/'' \<longrightarrow>
          (\<exists>h. (''http://localhost/'' = h \<or> ''http://localhost/'' = h @ ''/'') \<and> \<not> suffix ''/'' h
             \<and> baseUrl (new_client ''http://localhost/'' ''3001'' '' key '')
                 = h @ '':'' @ ''3001'' @ ''/api/v1'')"
    by (elim exE conjE)
  with a show "\<exists>h. (''http://localhost/'' = h \<or> ''http://localhost/'' = h @ ''/'') \<and> \<not> suffix ''/'' h
          \<and> baseUrl (new_client ''http://localhost/'' ''3001'' '' key '')
              = h @ '':'' @ ''3001'' @ ''/api/v1''"
    by (rule rev_mp)
  show "baseUrl (new_client ''http://localhost/'' ''3001'' '' key '')
      = ''http://localhost:3001/api/v1''"
    by (simp add: new_client_def strip_trailing_slash_def)
  show "req_url (getWorkspaces_request (new_client ''http://localhost/'' ''3001'' '' key ''))
       = ''http://localhost:3001/api/v1/workspaces''"
    by (simp add: getWorkspaces_request_def new_client_def strip_trailing_slash_def)
qed

section \<open>Pre-filled arguments\<close>

lemma prefill_param_other:
  "k \<noteq> name p \<Longrightarrow> prefill_param model m p k = m k"
  by (simp add: prefill_param_def split: option.splits)

lemma prefill_param_self:
  "prefill_param model m p (name p) =
     Some (if type p = T_slug \<and> model \<noteq> [] then JStr model
           else (case defaultValue p of Some v \<Rightarrow> v | None \<Rightarrow> JStr []))"
  by (simp add: prefill_param_def split: option.splits)

lemma foldl_prefill_untouched:
  "k \<notin> name ` set ps \<Longrightarrow> foldl (prefill_param model) m ps k = m k"
  by (induction ps arbitrary: m) (simp_all add: prefill_param_other)

lemma foldl_prefill_distinct:
  "distinct (map name ps) \<Longrightarrow> p \<in> set ps \<Longrightarrow>
   foldl (prefill_param model) m ps (name p) =
     Some (if type p = T_slug \<and> model \<noteq> [] then JStr model
           else (case defaultValue p of Some v \<Rightarrow> v | None \<Rightarrow> JStr []))"
proof (induction ps arbitrary: m)
  case Nil
  then show ?case by simp
next
  case (Cons q ps)
  show ?case
  proof (cases "p \<in> set ps")
    case True
    with Cons show ?thesis by simp
  next
    case False
    with Cons.prems have pq: "p = q" and "name q \<notin> name ` set ps" by auto
    then show ?thesis
      by (simp add: foldl_prefill_untouched prefill_param_self)
  qed
qed

lemma SDK_METHODS_distinct_names:
  "\<forall>d \<in> set SDK_METHODS. distinct (map name (params d))"
  by (simp add: SDK_METHODS_def)

text \<open>
  C8: for every descriptor of the registry and every parameter of it, the value bound to
  the parameter's name by the pre-fill is the current slug when the parameter has the
  type \<open>slug\<close> and a slug is known (the configured model is not empty), and otherwise
  the parameter's own \<open>defaultValue\<close> when it declares one, else the empty string.
  With the current slug \<open>finance-docs\<close> a slug parameter is bound to exactly that. The
  effect yields this binding for every index inside the registry.
\<close>

theorem prefill_binds_slug_and_defaults:
  "(\<forall>d \<in> set SDK_METHODS. \<forall>p \<in> set (params d).
      prefill d model (name p) =
        Some (if type p = T_slug \<and> model \<noteq> [] then JStr model
              else (case defaultValue p of Some v \<Rightarrow> v | None \<Rightarrow> JStr [])))
   \<and> (\<forall>idx. idx < length SDK_METHODS \<longrightarrow>
        prefill_effect idx model = Inr (prefill (SDK_METHODS ! idx) model))"
proof (intro conjI ballI allI impI)
  fix d p
  assume "d \<in> set SDK_METHODS" and "p \<in> set (params d)"
  with SDK_METHODS_distinct_names show "prefill d model (name p) =
        Some (if type p = T_slug \<and> model \<noteq> [] then JStr model
              else (case defaultValue p of Some v \<Rightarrow> v | None \<Rightarrow> JStr []))"
    unfolding prefill_def by (intro foldl_prefill_distinct) auto
next
  fix idx
  assume "idx < length SDK_METHODS"
  then show "prefill_effect idx model = Inr (prefill (SDK_METHODS ! idx) model)"
    by (simp add: prefill_effect_def)
qed

theorem prefill_binds_slug_and_defaults_witness:
  "SDK_METHODS ! 5 \<in> set SDK_METHODS
   \<and> method_name (SDK_METHODS ! 5) = ''sendChat''
   \<and> params (SDK_METHODS ! 5) ! 0 \<in> set (params (SDK_METHODS ! 5))
   \<and> name (params (SDK_METHODS ! 5) ! 0) = ''slug''
   \<and> type (params (SDK_METHODS ! 5) ! 0) = T_slug
   \<and> prefill (SDK_METHODS ! 5) ''finance-docs'' ''slug'' = Some (JStr ''finance-docs'')"
proof -
  let ?d = "SDK_METHODS ! 5"
  let ?p = "params ?d ! 0"
  have d: "?d \<in> set SDK_METHODS" by (simp add: SDK_METHODS_def)
  have p: "?p \<in> set (params ?d)" by (simp add: SDK_METHODS_def)
  have n: "name ?p = ''slug''" by (simp add: SDK_METHODS_def)
  have t: "type ?p = T_slug" by (simp add: SDK_METHODS_def)
  have m: "method_name ?d = ''sendChat''" by (simp add: SDK_METHODS_def)
  from prefill_binds_slug_and_defaults [of "''finance-docs''"] d p
  have "prefill ?d ''finance-docs'' (name ?p) =
        Some (if type ?p = T_slug \<and> ''finance-docs'' \<noteq> [] then JStr ''finance-docs''
              else (case defaultValue ?p of Some v \<Rightarrow> v | None \<Rightarrow> JStr []))"
    by blast
  then have "prefill ?d ''finance-docs'' ''slug'' = Some (JStr ''finance-docs'')"
    by (simp only: n t) simp
  with d p n t m show ?thesis by (intro conjI)
qed

section \<open>Listing users\<close>

text \<open>
  C9, as stated: on an unsuccessful response \<open>getUsers\<close> fails with a message whose
  text distinguishes a denial of privilege from a generic failure. The code never reads
  the status: every failure gets the same text, admin hint included, followed by the
  status text. A 403 and a 500 that both come with an empty status text (as over HTTP/2)
  give the very same error.
\<close>

theorem getUsers_denial_same_text_counterexample:
  "getUsers (new_client ''http://localhost'' ''3001'' ''key'')
     (responds \<lparr>status = 403, statusText = [], body_text = Inr ''Forbidden'',
                body_json = Inl (JsError SyntaxError ''bad'')\<rparr>)
   = Inl (JsError Error ''Failed to fetch users (May require Admin privilege): '')
   \<and> getUsers (new_client ''http://localhost'' ''3001'' ''key'')
       (responds \<lparr>status = 500, statusText = [], body_text = Inr ''Internal Server Error'',
                  body_json = Inl (JsError SyntaxError ''bad'')\<rparr>)
     = Inl (JsError Error ''Failed to fetch users (May require Admin privilege): '')"
  by (simp add: getUsers_def responds_def ok_def)

text \<open>
  C9, amended: when the response is 2xx and its body holds an array under \<open>users\<close>,
  \<open>getUsers\<close> returns that array, elements and order as the server sent them. On any
  response outside 2xx it fails with an error of the one kind \<open>Error\<close>, whose message
  is the same admin-privilege hint for every status, followed by the status text of the
  response. So two failures are told apart by the status text alone: their errors are
  equal exactly when their status texts are.
\<close>

theorem getUsers_sequence_or_privilege_message:
  "(\<forall>resp kvs us. fetch (getUsers_request c) = Inr resp \<and> ok resp
        \<and> body_json resp = Inr (JObj kvs) \<and> map_of kvs ''users'' = Some (JArr us) \<longrightarrow>
        getUsers c fetch = Inr (JArr us))
   \<and> (\<forall>resp. fetch (getUsers_request c) = Inr resp \<and> \<not> ok resp \<longrightarrow>
        (\<exists>e. getUsers c fetch = Inl e \<and> error_kind e = Error
           \<and> message e = ''Failed to fetch users (May require Admin privilege): ''
                          @ statusText resp))
   \<and> (\<forall>r1 r2. fetch (getUsers_request c) = Inr r1 \<and> \<not> ok r1
        \<and> fetch' (getUsers_request c) = Inr r2 \<and> \<not> ok r2 \<longrightarrow>
        (getUsers c fetch = getUsers c fetch' \<longleftrightarrow> statusText r1 = statusText r2))"
  by (simp add: getUsers_def js_or_def)

theorem getUsers_sequence_or_privilege_message_witness:
  "responds \<lparr>status = 403, statusText = ''Forbidden'', body_text = Inr [],
             body_json = Inl (JsError SyntaxError ''bad'')\<rparr>
     (getUsers_request (new_client ''http://localhost'' ''3001'' ''key''))
   = Inr \<lparr>status = 403, statusText = ''Forbidden'', body_text = Inr [],
          body_json = Inl (JsError SyntaxError ''bad'')\<rparr>
   \<and> \<not> ok \<lparr>status = 403, statusText = ''Forbidden'', body_text = Inr [],
              body_json = Inl (JsError SyntaxError ''bad'')\<rparr>
   \<and> (\<exists>e. getUsers (new_client ''http://localhost'' ''3001'' ''key'')
             (responds \<lparr>status = 403, statusText = ''Forbidden'', body_text = Inr [],
                        body_json = Inl (JsError SyntaxError ''bad'')\<rparr>) = Inl e
          \<and> error_kind e = Error
          \<and> message e = ''Failed to fetch users (May require Admin privilege): Forbidden'')"
proof -
  let ?c = "new_client ''http://localhost'' ''3001'' ''key''"
  let ?r = "\<lparr>status = 403, statusText = ''Forbidden'', body_text = Inr [],
             body_json = Inl (JsError SyntaxError ''bad'')\<rparr>"
  have a: "responds ?r (getUsers_request ?c) = Inr ?r"
    by (simp add: responds_def)
  have b: "\<not> ok ?r" by (simp add: ok_def)
  from getUsers_sequence_or_privilege_message
    [where fetch = "responds ?r" and c = ?c and fetch' = "responds ?r"]
  have "\<exists>e. getUsers ?c (responds ?r) = Inl e \<and> error_kind e = Error
           \<and> message e = ''Failed to fetch users (May require Admin privilege): ''
                          @ statusText ?r"
    using a b by blast
  then show ?thesis using a b by simp
qed

section \<open>Missing array fields\<close>

lemma get_prop_readable:
  "get_prop data k = Inr v \<Longrightarrow> \<exists>w. get_prop data k' = Inr w"
  by (cases data) simp_all

lemma get_prop_missing:
  "data \<noteq> JNull \<Longrightarrow> data \<noteq> JUndefined \<Longrightarrow>
   (\<And>kvs. data = JObj kvs \<Longrightarrow> map_of kvs key = None) \<Longrightarrow>
   get_prop data key = Inr JUndefined"
  by (cases data) simp_all

text \<open>
  C10, as stated: for every 2xx response whose parsed body lacks the array field, the
  client puts an empty list in its place instead of failing. The body \<open>null\<close> is valid
  JSON and has no field at all; reading \<open>data.workspaces\<close> of it throws.
\<close>

theorem null_body_counterexample:
  "getWorkspaces (new_client ''http://localhost'' ''3001'' ''key'')
     (responds \<lparr>status = 200, statusText = ''OK'', body_text = Inr ''null'',
                body_json = Inr JNull\<rparr>)
   = Inl (JsError TypeError
           (''Cannot read properties of null (reading '' @ [CHR 0x27] @ ''workspaces''
            @ [CHR 0x27] @ '')''))"
  by (simp add: getWorkspaces_def responds_def ok_def)

text \<open>
  C10, amended: for every 2xx response whose parsed body is not \<open>null\<close> and reads as
  \<open>undefined\<close> at the array field, the client puts an empty list in its place:
  \<open>getWorkspaces\<close> for \<open>workspaces\<close>, \<open>getUsers\<close> for \<open>users\<close>, \<open>sendChat\<close> in
  its \<open>sources\<close>. A field reads as \<open>undefined\<close> in every body other than \<open>null\<close>
  that is not an object with that field.
\<close>

theorem missing_array_field_defaults:
  "(fetch (getWorkspaces_request c) = Inr resp \<and> ok resp \<and> body_json resp = Inr data
      \<and> get_prop data ''workspaces'' = Inr JUndefined \<longrightarrow>
      getWorkspaces c fetch = Inr (JArr []))
   \<and> (fetch (getUsers_request c) = Inr resp \<and> ok resp \<and> body_json resp = Inr data
      \<and> get_prop data ''users'' = Inr JUndefined \<longrightarrow>
      getUsers c fetch = Inr (JArr []))
   \<and> (fetch (sendChat_request c slug msg mode) = Inr resp \<and> ok resp
      \<and> body_json resp = Inr data \<and> get_prop data ''sources'' = Inr JUndefined \<longrightarrow>
      (\<exists>r. sendChat c fetch slug msg mode = Inr r \<and> sources r = JArr []))
   \<and> (data \<noteq> JNull \<and> data \<noteq> JUndefined
      \<and> (\<forall>kvs. data = JObj kvs \<longrightarrow> map_of kvs key = None) \<longrightarrow>
      get_prop data key = Inr JUndefined)"
proof (intro conjI impI)
  assume "fetch (getWorkspaces_request c) = Inr resp \<and> ok resp \<and> body_json resp = Inr data
      \<and> get_prop data ''workspaces'' = Inr JUndefined"
  then show "getWorkspaces c fetch = Inr (JArr [])"
    by (simp add: getWorkspaces_def js_or_def)
next
  assume "fetch (getUsers_request c) = Inr resp \<and> ok resp \<and> body_json resp = Inr data
      \<and> get_prop data ''users'' = Inr JUndefined"
  then show "getUsers c fetch = Inr (JArr [])"
    by (simp add: getUsers_def js_or_def)
next
  assume a: "fetch (sendChat_request c slug msg mode) = Inr resp \<and> ok resp
      \<and> body_json resp = Inr data \<and> get_prop data ''sources'' = Inr JUndefined"
  then obtain w where "get_prop data ''textResponse'' = Inr w"
    using get_prop_readable by blast
  with a show "\<exists>r. sendChat c fetch slug msg mode = Inr r \<and> sources r = JArr []"
    by (simp add: sendChat_def js_or_def)
next
  assume "data \<noteq> JNull \<and> data \<noteq> JUndefined
      \<and> (\<forall>kvs. data = JObj kvs \<longrightarrow> map_of kvs key = None)"
  then show "get_prop data key = Inr JUndefined"
    by (intro get_prop_missing) auto
qed

theorem missing_array_field_defaults_witness:
  "responds \<lparr>status = 200, statusText = ''OK'', body_text = Inr ''{}'',
             body_json = Inr (JObj [])\<rparr>
     (getUsers_request (new_client ''http://localhost'' ''3001'' ''key''))
   = Inr \<lparr>status = 200, statusText = ''OK'', body_text = Inr ''{}'',
          body_json = Inr (JObj [])\<rparr>
   \<and> ok \<lparr>status = 200, statusText = ''OK'', body_text = Inr ''{}'',
          body_json = Inr (JObj [])\<rparr>
   \<and> get_prop (JObj []) ''users'' = Inr JUndefined
   \<and> getUsers (new_client ''http://localhost'' ''3001'' ''key'')
       (responds \<lparr>status = 200, statusText = ''OK'', body_text = Inr ''{}'',
                  body_json = Inr (JObj [])\<rparr>)
     = Inr (JArr [])"
proof -
  let ?c = "new_client ''http://localhost'' ''3001'' ''key''"
  let ?r = "\<lparr>status = 200, statusText = ''OK'', body_text = Inr ''{}'',
             body_json = Inr (JObj [])\<rparr>"
  have a: "responds ?r (getUsers_request ?c) = Inr ?r"
    by (simp add: responds_def)
  have b: "ok ?r" by (simp add: ok_def)
  have j: "body_json ?r = Inr (JObj [])" by simp
  have g: "get_prop (JObj []) ''users'' = Inr JUndefined" by simp
  from missing_array_field_defaults
    [where fetch = "responds ?r" and c = ?c and resp = ?r and data = "JObj []"
       and slug = "''docs''" and msg = "''hi''" and mode = None and key = "''users''"]
  have "getUsers ?c (responds ?r) = Inr (JArr [])"
    using a b j g by blast
  then show ?thesis using a b g by simp
qed

end
